theory Spec2Isabelle
  imports Main
begin

section \<open>The Lua side of the binding\<close>

text \<open>
  \<^verbatim>\<open>Solver.c\<close> is a Lua C module around the Lingeling API. Its functions read their
  arguments from the Lua stack, raise errors with \<^verbatim>\<open>lua_error\<close> and call the engine
  through an \<^verbatim>\<open>LGL *\<close> kept in a full userdata. The Lua runtime and the engine are
  libraries outside the repository: the parts of the runtime the module reads are
  modelled below after the Lua 5.3/5.4 reference manual, the engine is a parameter.

  \<^verbatim>\<open>lua_Integer\<close> values are only moved, compared with zero and handed on, never
  computed with, so they are integers here.
\<close>

type_synonym lua_Integer = int

text \<open>
  A value of C type \<^verbatim>\<open>int\<close> (32 bits), and the conversion C applies where a
  \<^verbatim>\<open>lua_Integer\<close> (64 bits) is passed for an \<^verbatim>\<open>int\<close> parameter: the value is
  reduced modulo \<open>2 ^ 32\<close> into the range of \<^verbatim>\<open>int\<close> (the C standard leaves the
  result to the implementation; this is what GCC, Clang and MSVC define). A value
  in the range is unchanged.
\<close>

type_synonym c_int = int

definition int_range :: "lua_Integer \<Rightarrow> bool" where
  "int_range c = (- (2 ^ 31) \<le> c \<and> c < 2 ^ 31)"

definition to_int :: "lua_Integer \<Rightarrow> c_int" where
  "to_int c = (c + 2 ^ 31) mod 2 ^ 32 - 2 ^ 31"

text \<open>The identity of a table.\<close>

type_synonym table_id = nat

text \<open>A value of C type \<^verbatim>\<open>LGL *\<close>.\<close>

type_synonym LGL = nat

text \<open>
  A float is kept as its exact value \<open>m * 2 ^ e\<close>, or as one of the special values;
  the module only ever asks whether a float is an integer.
\<close>

datatype lua_Number = Flt int int | Inf bool | NaN

datatype lua_tag =
    LUA_TNIL | LUA_TBOOLEAN | LUA_TLIGHTUSERDATA | LUA_TNUMBER | LUA_TSTRING
  | LUA_TTABLE | LUA_TFUNCTION | LUA_TUSERDATA | LUA_TTHREAD

text \<open>
  A table carries its metatable and the values \<^verbatim>\<open>lua_geti\<close> yields at the positions
  \<open>1 .. n\<close>, where \<open>n\<close> is what \<^verbatim>\<open>lua_len\<close> reports (a \<^verbatim>\<open>nil\<close> inside the range is
  the entry \<open>LNil\<close>). A full userdata carries its metatable and the \<^verbatim>\<open>LGL *\<close> stored in
  its block. A light userdata is a bare pointer: \<open>None\<close> is \<^verbatim>\<open>NULL\<close>, otherwise it is
  given by the \<^verbatim>\<open>LGL *\<close> a read through it yields.
\<close>

datatype lua_value =
    LNil
  | LBoolean bool
  | LLightUserdata "LGL option"
  | LInteger lua_Integer
  | LFloat lua_Number
  | LString string
  | LTable "table_id option" "lua_value list"
  | LFunction
  | LUserdata "table_id option" LGL
  | LThread

text \<open>
  What a C function sees of \<^verbatim>\<open>struct lua_State\<close>: its arguments on the stack (index 1
  first), the first upvalue of the closure (the Solver class table, see
  \<^verbatim>\<open>luaopen_grazil_bindings_lingeling_Solver\<close>), the metatables shared by the values of
  each basic type, the runtime's coercion of strings to integers, and the answer of
  the \<^verbatim>\<open>__eq\<close> metamethod Lua finds for two different tables (the metamethod of the
  first table's metatable, else of the second's; \<open>False\<close> when there is none). The
  class table is handed to the script, which can give it a metatable with \<^verbatim>\<open>__eq\<close>.
  A metamethod that raises instead of answering is outside this record.
\<close>

record lua_State =
  stack :: "lua_value list"
  upvalue1 :: table_id
  type_mt :: "lua_tag \<Rightarrow> table_id option"
  str2integer :: "string \<Rightarrow> lua_Integer option"
  eq_tm :: "table_id \<Rightarrow> table_id \<Rightarrow> bool"

definition lua_gettop :: "lua_State \<Rightarrow> int" where
  "lua_gettop L = int (length (stack L))"

text \<open>The value at a positive index; an index above the top reads as \<^verbatim>\<open>nil\<close>.\<close>

definition index2value :: "lua_State \<Rightarrow> int \<Rightarrow> lua_value" where
  "index2value L idx =
     (if 1 \<le> idx \<and> idx \<le> lua_gettop L then stack L ! nat (idx - 1) else LNil)"

fun ttype :: "lua_value \<Rightarrow> lua_tag" where
  "ttype LNil = LUA_TNIL"
| "ttype (LBoolean b) = LUA_TBOOLEAN"
| "ttype (LLightUserdata p) = LUA_TLIGHTUSERDATA"
| "ttype (LInteger i) = LUA_TNUMBER"
| "ttype (LFloat f) = LUA_TNUMBER"
| "ttype (LString s) = LUA_TSTRING"
| "ttype (LTable mt xs) = LUA_TTABLE"
| "ttype LFunction = LUA_TFUNCTION"
| "ttype (LUserdata mt p) = LUA_TUSERDATA"
| "ttype LThread = LUA_TTHREAD"

definition lua_type :: "lua_State \<Rightarrow> int \<Rightarrow> lua_tag" where
  "lua_type L idx = ttype (index2value L idx)"

text \<open>
  \<^verbatim>\<open>lua_getmetatable\<close>: the metatable of the value, \<open>None\<close> when the call returns 0.
  Tables and full userdata have their own, every other value the one of its type.
\<close>

definition lua_getmetatable :: "lua_State \<Rightarrow> int \<Rightarrow> table_id option" where
  "lua_getmetatable L idx =
     (case index2value L idx of
        LTable mt xs \<Rightarrow> mt
      | LUserdata mt p \<Rightarrow> mt
      | v \<Rightarrow> type_mt L (ttype v))"

text \<open>
  \<^verbatim>\<open>lua_compare\<close> with \<^verbatim>\<open>LUA_OPEQ\<close> on two tables follows Lua's \<open>==\<close>: the same
  table, or else what the \<^verbatim>\<open>__eq\<close> metamethod answers.
\<close>

definition lua_compare_eq :: "lua_State \<Rightarrow> table_id \<Rightarrow> table_id \<Rightarrow> bool" where
  "lua_compare_eq L a b = (a = b \<or> eq_tm L a b)"

text \<open>\<^verbatim>\<open>lua_touserdata\<close>: \<open>None\<close> is the \<^verbatim>\<open>NULL\<close> result.\<close>

definition lua_touserdata :: "lua_State \<Rightarrow> int \<Rightarrow> LGL option" where
  "lua_touserdata L idx =
     (case index2value L idx of
        LUserdata mt p \<Rightarrow> Some p
      | LLightUserdata p \<Rightarrow> p
      | v \<Rightarrow> None)"

text \<open>
  A float converts to an integer exactly when its value is integral and lies in the
  range of \<^verbatim>\<open>lua_Integer\<close> (64 bits).
\<close>

fun luaV_flttointns :: "lua_Number \<Rightarrow> lua_Integer option" where
  "luaV_flttointns (Flt m e) =
     (if 0 \<le> e then
        (let v = m * 2 ^ nat e in
         if - (2 ^ 63) \<le> v \<and> v < 2 ^ 63 then Some v else None)
      else if m mod 2 ^ nat (- e) = 0 then
        (let v = m div 2 ^ nat (- e) in
         if - (2 ^ 63) \<le> v \<and> v < 2 ^ 63 then Some v else None)
      else None)"
| "luaV_flttointns (Inf s) = None"
| "luaV_flttointns NaN = None"

text \<open>
  \<^verbatim>\<open>lua_tointegerx\<close> on a value: \<open>None\<close> when the call reports no success (and
  returns 0). An integer is itself, a float and a string are converted if they can
  be, nothing else converts.
\<close>

definition tointegerx :: "lua_State \<Rightarrow> lua_value \<Rightarrow> lua_Integer option" where
  "tointegerx L v =
     (case v of
        LInteger i \<Rightarrow> Some i
      | LFloat f \<Rightarrow> luaV_flttointns f
      | LString s \<Rightarrow> str2integer L s
      | _ \<Rightarrow> None)"

definition lua_tointegerx :: "lua_State \<Rightarrow> int \<Rightarrow> lua_Integer option" where
  "lua_tointegerx L idx = tointegerx L (index2value L idx)"

text \<open>\<^verbatim>\<open>lua_tointeger\<close> drops the success flag: 0 when nothing converts.\<close>

definition tointeger :: "lua_State \<Rightarrow> lua_value \<Rightarrow> lua_Integer" where
  "tointeger L v = (case tointegerx L v of Some i \<Rightarrow> i | None \<Rightarrow> 0)"

text \<open>\<^verbatim>\<open>lua_len\<close> followed by \<^verbatim>\<open>lua_tointeger\<close>, and \<^verbatim>\<open>lua_geti\<close>, on a table.\<close>

definition lua_len :: "lua_value \<Rightarrow> lua_Integer" where
  "lua_len t = (case t of LTable mt xs \<Rightarrow> int (length xs) | _ \<Rightarrow> 0)"

definition lua_geti :: "lua_value \<Rightarrow> lua_Integer \<Rightarrow> lua_value" where
  "lua_geti t j =
     (case t of
        LTable mt xs \<Rightarrow> (if 1 \<le> j \<and> j \<le> int (length xs) then xs ! nat (j - 1) else LNil)
      | _ \<Rightarrow> LNil)"

text \<open>\<^verbatim>\<open>lua_seti\<close> on a table: position \<open>n + 1\<close> extends the sequence.\<close>

definition lua_seti :: "lua_value \<Rightarrow> lua_Integer \<Rightarrow> lua_value \<Rightarrow> lua_value" where
  "lua_seti t j v =
     (case t of
        LTable mt xs \<Rightarrow>
          (if j = int (length xs) + 1 then LTable mt (xs @ [v])
           else if 1 \<le> j \<and> j \<le> int (length xs) then LTable mt (xs[nat (j - 1) := v])
           else t)
      | _ \<Rightarrow> t)"

section \<open>The engine\<close>

text \<open>
  \<^verbatim>\<open>lglib.h\<close> and the engine are not part of the repository. The engine is a parameter:
  a state \<open>'w\<close> of everything the library owns, and one function for each API call
  the module makes, taking the state and returning the new one. Literals and
  results are C \<^verbatim>\<open>int\<close>s, as in \<^verbatim>\<open>void lgladd (LGL *, int)\<close> and
  \<^verbatim>\<open>int lglderef (LGL *, int)\<close>. \<open>LGL_SATISFIABLE\<close> is the constant of the header.
\<close>

record 'w engine =
  lglinit :: "'w \<Rightarrow> LGL \<times> 'w"
  lglrelease :: "LGL \<Rightarrow> 'w \<Rightarrow> 'w"
  lgladd :: "LGL \<Rightarrow> c_int \<Rightarrow> 'w \<Rightarrow> 'w"
  lglsat :: "LGL \<Rightarrow> 'w \<Rightarrow> c_int \<times> 'w"
  lglderef :: "LGL \<Rightarrow> c_int \<Rightarrow> 'w \<Rightarrow> c_int \<times> 'w"
  LGL_SATISFIABLE :: c_int

text \<open>
  What a call of a module function leaves behind: the error message of
  \<^verbatim>\<open>lua_error\<close> or the values returned to Lua, and the engine state. An error unwinds
  the C function; the engine calls made before it stay made.
\<close>

type_synonym 'w outcome = "(string + lua_value list) \<times> 'w"

section \<open>Solver.c\<close>

definition get_lgl :: "lua_State \<Rightarrow> string + LGL" where
  "get_lgl L =
     (case lua_getmetatable L 1 of
        None \<Rightarrow> Inl ''Invalid self argument''
      | Some mt \<Rightarrow>
          if \<not> lua_compare_eq L (upvalue1 L) mt then Inl ''Invalid self argument''
          else (case lua_touserdata L 1 of
                  None \<Rightarrow> Inl ''Invalid self argument''
                | Some lgl \<Rightarrow> Inr lgl))"

definition Solver_isSatisfiable :: "'w engine \<Rightarrow> lua_State \<Rightarrow> 'w \<Rightarrow> 'w outcome" where
  "Solver_isSatisfiable eng L w =
     (case get_lgl L of
        Inl msg \<Rightarrow> (Inl msg, w)
      | Inr lgl \<Rightarrow>
          (case lglsat eng lgl w of
             (r, w') \<Rightarrow>
               if r = LGL_SATISFIABLE eng then (Inr [LBoolean True], w')
               else (Inr [LBoolean False], w')))"

text \<open>
  The inner loop of \<^verbatim>\<open>Solver_addDIMACSSeqence\<close> over the entries \<open>j .. len\<close> of the
  table \<open>t\<close>: get the entry, convert it, raise if it did not convert, otherwise hand
  it to \<^verbatim>\<open>lgladd\<close> at once, the \<^verbatim>\<open>lua_Integer\<close> passed for an \<^verbatim>\<open>int\<close>. (The counters \<open>i\<close> and \<open>j\<close> are C \<^verbatim>\<open>int\<close>s; they are
  integers here, which is the code as long as a table has fewer than \<open>2 ^ 31 - 1\<close> entries.)
\<close>

function add_table ::
  "'w engine \<Rightarrow> lua_State \<Rightarrow> LGL \<Rightarrow> lua_value \<Rightarrow> lua_Integer \<Rightarrow> int \<Rightarrow> 'w
     \<Rightarrow> (string + unit) \<times> 'w" where
  "add_table eng L lgl t len j w =
     (if j \<le> len then
        (case tointegerx L (lua_geti t j) of
           None \<Rightarrow> (Inl ''Illegal argument in DIMACS sequence'', w)
         | Some c \<Rightarrow> add_table eng L lgl t len (j + 1) (lgladd eng lgl (to_int c) w))
      else (Inr (), w))"
  by pat_completeness auto
termination
  by (relation "measure (\<lambda>(eng, L, lgl, t, len, j, w). nat (len + 1 - j))") auto

text \<open>The outer loop over the arguments \<open>i .. n\<close>.\<close>

function add_args ::
  "'w engine \<Rightarrow> lua_State \<Rightarrow> LGL \<Rightarrow> int \<Rightarrow> int \<Rightarrow> 'w \<Rightarrow> (string + unit) \<times> 'w" where
  "add_args eng L lgl n i w =
     (if i \<le> n then
        (if lua_type L i = LUA_TTABLE then
           (case add_table eng L lgl (index2value L i) (lua_len (index2value L i)) 1 w of
              (Inl msg, w') \<Rightarrow> (Inl msg, w')
            | (Inr u, w') \<Rightarrow> add_args eng L lgl n (i + 1) w')
         else
           (case lua_tointegerx L i of
              None \<Rightarrow> (Inl ''Illegal argument in DIMACS sequence'', w)
            | Some c \<Rightarrow> add_args eng L lgl n (i + 1) (lgladd eng lgl (to_int c) w)))
      else (Inr (), w))"
  by pat_completeness auto
termination
  by (relation "measure (\<lambda>(eng, L, lgl, n, i, w). nat (n + 1 - i))") auto

definition Solver_addDIMACSSeqence :: "'w engine \<Rightarrow> lua_State \<Rightarrow> 'w \<Rightarrow> 'w outcome" where
  "Solver_addDIMACSSeqence eng L w =
     (case get_lgl L of
        Inl msg \<Rightarrow> (Inl msg, w)
      | Inr lgl \<Rightarrow>
          (case add_args eng L lgl (lua_gettop L) 2 w of
             (Inl msg, w') \<Rightarrow> (Inl msg, w')
           | (Inr u, w') \<Rightarrow> (Inr [], w')))"

text \<open>
  The loop of \<^verbatim>\<open>Solver_query\<close> over the entries \<open>j .. len\<close> of the table at index 2;
  \<open>res\<close> is the result table at stack position 3. The test against zero is on the
  \<^verbatim>\<open>lua_Integer\<close>, the call of \<^verbatim>\<open>lglderef\<close> passes it for an \<^verbatim>\<open>int\<close>.
\<close>

function query_loop ::
  "'w engine \<Rightarrow> lua_State \<Rightarrow> LGL \<Rightarrow> lua_Integer \<Rightarrow> int \<Rightarrow> lua_value \<Rightarrow> 'w
     \<Rightarrow> (string + lua_value) \<times> 'w" where
  "query_loop eng L lgl len j res w =
     (if j \<le> len then
        (let c = tointeger L (lua_geti (index2value L 2) j) in
         if c = 0 then (Inl ''Array may contain only non-zero integers'', w)
         else (case lglderef eng lgl (to_int c) w of
                 (r, w') \<Rightarrow> query_loop eng L lgl len (j + 1) (lua_seti res j (LInteger r)) w'))
      else (Inr res, w))"
  by pat_completeness auto
termination
  by (relation "measure (\<lambda>(eng, L, lgl, len, j, res, w). nat (len + 1 - j))") auto

definition Solver_query :: "'w engine \<Rightarrow> lua_State \<Rightarrow> 'w \<Rightarrow> 'w outcome" where
  "Solver_query eng L w =
     (case get_lgl L of
        Inl msg \<Rightarrow> (Inl msg, w)
      | Inr lgl \<Rightarrow>
          if lua_gettop L \<noteq> 2
          then (Inl ''Query must be called with arguments self and a table'', w)
          else if lua_type L 2 \<noteq> LUA_TTABLE
          then (Inl ''Query must be called with a table argument'', w)
          else (case query_loop eng L lgl (lua_len (index2value L 2)) 1 (LTable None []) w of
                  (Inl msg, w') \<Rightarrow> (Inl msg, w')
                | (Inr res, w') \<Rightarrow> (Inr [res], w')))"

text \<open>
  \<^verbatim>\<open>Solver_gc\<close>, installed as \<^verbatim>\<open>__gc\<close> of the class: it does not go through
  \<^verbatim>\<open>get_lgl\<close> and keeps no record of a release.
\<close>

definition Solver_gc :: "'w engine \<Rightarrow> lua_State \<Rightarrow> 'w \<Rightarrow> 'w outcome" where
  "Solver_gc eng L w =
     (case lua_touserdata L 1 of
        Some lgl \<Rightarrow> (Inr [], lglrelease eng lgl w)
      | None \<Rightarrow> (Inr [], w))"

text \<open>
  \<^verbatim>\<open>Solver_new\<close> returns a new userdata holding the result of \<^verbatim>\<open>lglinit\<close>. The class
  becomes the metatable of the value at stack index 1: that is the new userdata
  when the function is called without arguments. Called with arguments, the
  userdata is returned without metatable (the change to the first argument is not
  part of the outcome).
\<close>

definition Solver_new :: "'w engine \<Rightarrow> lua_State \<Rightarrow> 'w \<Rightarrow> 'w outcome" where
  "Solver_new eng L w =
     (case lglinit eng w of
        (lgl, w') \<Rightarrow>
          (Inr [LUserdata (if stack L = [] then Some (upvalue1 L) else None) lgl], w'))"

section \<open>The loops as list traversals\<close>

text \<open>The values a clause submission reads, in the order it reads them: the entries
  of a table argument, any other argument itself.\<close>

fun elements :: "lua_value list \<Rightarrow> lua_value list" where
  "elements [] = []"
| "elements (LTable mt xs # args) = xs @ elements args"
| "elements (v # args) = v # elements args"

text \<open>Converting and adding a list of values one after the other.\<close>

fun add_values ::
  "'w engine \<Rightarrow> lua_State \<Rightarrow> LGL \<Rightarrow> lua_value list \<Rightarrow> 'w \<Rightarrow> (string + unit) \<times> 'w" where
  "add_values eng L lgl [] w = (Inr (), w)"
| "add_values eng L lgl (v # vs) w =
     (case tointegerx L v of
        None \<Rightarrow> (Inl ''Illegal argument in DIMACS sequence'', w)
      | Some c \<Rightarrow> add_values eng L lgl vs (lgladd eng lgl (to_int c) w))"

text \<open>The integers of the values before the first one that does not convert.\<close>

fun converted_prefix :: "lua_State \<Rightarrow> lua_value list \<Rightarrow> lua_Integer list" where
  "converted_prefix L [] = []"
| "converted_prefix L (v # vs) =
     (case tointegerx L v of None \<Rightarrow> [] | Some c \<Rightarrow> c # converted_prefix L vs)"

text \<open>Dereferencing a list of literals one after the other, as the specification
  describes a query.\<close>

fun deref_each :: "'w engine \<Rightarrow> LGL \<Rightarrow> c_int list \<Rightarrow> 'w \<Rightarrow> c_int list \<times> 'w" where
  "deref_each eng lgl [] w = ([], w)"
| "deref_each eng lgl (c # cs) w =
     (case lglderef eng lgl c w of
        (r, w') \<Rightarrow> (case deref_each eng lgl cs w' of (rs, w'') \<Rightarrow> (r # rs, w'')))"

text \<open>The loop of a query over a list of values; \<open>rs\<close> are the results so far.\<close>

fun query_values ::
  "'w engine \<Rightarrow> lua_State \<Rightarrow> LGL \<Rightarrow> lua_value list \<Rightarrow> lua_value list \<Rightarrow> 'w
     \<Rightarrow> (string + lua_value) \<times> 'w" where
  "query_values eng L lgl [] rs w = (Inr (LTable None rs), w)"
| "query_values eng L lgl (v # vs) rs w =
     (if tointeger L v = 0 then (Inl ''Array may contain only non-zero integers'', w)
      else (case lglderef eng lgl (to_int (tointeger L v)) w of
              (r, w') \<Rightarrow> query_values eng L lgl vs (rs @ [LInteger r]) w'))"

declare add_table.simps [simp del] add_args.simps [simp del] query_loop.simps [simp del]

section \<open>Sessions before the first solve\<close>

text \<open>
  The sessions on which no solve has completed: a userdata returned by \<open>new\<close>
  called without arguments, and from there any number of clause submissions (failed
  ones too) and queries, and nothing else.
\<close>

inductive unsolved :: "'w engine \<Rightarrow> lua_State \<Rightarrow> lua_value \<Rightarrow> 'w \<Rightarrow> bool" where
  created:
    "Solver_new eng (L\<lparr>stack := []\<rparr>) w = (Inr [self], w') \<Longrightarrow> unsolved eng L self w'"
| submitted:
    "unsolved eng L self w \<Longrightarrow>
     Solver_addDIMACSSeqence eng (L\<lparr>stack := self # args\<rparr>) w = (r, w') \<Longrightarrow>
     unsolved eng L self w'"
| queried:
    "unsolved eng L self w \<Longrightarrow>
     Solver_query eng (L\<lparr>stack := self # args\<rparr>) w = (r, w') \<Longrightarrow>
     unsolved eng L self w'"

section \<open>The words of the specification\<close>

text \<open>An argument of a clause submission that is a single integer or an ordered
  collection of integers, and the literals it stands for.\<close>

fun is_integer :: "lua_value \<Rightarrow> bool" where
  "is_integer (LInteger c) = True"
| "is_integer v = False"

fun integer_valued :: "lua_value \<Rightarrow> bool" where
  "integer_valued (LInteger c) = True"
| "integer_valued (LTable mt xs) = list_all is_integer xs"
| "integer_valued v = False"

fun integers :: "lua_value list \<Rightarrow> lua_Integer list" where
  "integers [] = []"
| "integers (LInteger c # vs) = c # integers vs"
| "integers (v # vs) = integers vs"

fun literals_of :: "lua_value \<Rightarrow> lua_Integer list" where
  "literals_of (LInteger c) = [c]"
| "literals_of (LTable mt xs) = integers xs"
| "literals_of v = []"

text \<open>The literal stream of an argument list: argument order, then collection order.\<close>

definition literal_stream :: "lua_value list \<Rightarrow> lua_Integer list" where
  "literal_stream args = concat (map literals_of args)"

text \<open>An engine whose dereference is a read: it leaves the engine state as it is.\<close>

definition deref_reads :: "'w engine \<Rightarrow> bool" where
  "deref_reads eng = (\<forall>lgl c w. snd (lglderef eng lgl c w) = w)"

section \<open>Engines and states to run the module on\<close>

text \<open>
  A recording engine: its state is the list of the calls that reached it. The
  answer of a solve is \<open>verdict\<close> of the literals added so far to that instance; a
  literal is dereferenced to 0 before the first solve of the instance and by
  \<open>assignment\<close> after it.
\<close>

datatype lgl_call =
  Init LGL | Release LGL | Add LGL c_int | Sat LGL | Deref LGL c_int

fun added :: "LGL \<Rightarrow> lgl_call list \<Rightarrow> c_int list" where
  "added lgl [] = []"
| "added lgl (Add l c # cs) = (if l = lgl then c # added lgl cs else added lgl cs)"
| "added lgl (_ # cs) = added lgl cs"

fun inits :: "lgl_call list \<Rightarrow> nat" where
  "inits [] = 0"
| "inits (Init l # cs) = Suc (inits cs)"
| "inits (_ # cs) = inits cs"

definition recording_engine ::
  "(c_int list \<Rightarrow> c_int) \<Rightarrow> (c_int \<Rightarrow> c_int) \<Rightarrow> lgl_call list engine" where
  "recording_engine verdict assignment =
     \<lparr> lglinit = (\<lambda>w. (inits w, w @ [Init (inits w)])),
       lglrelease = (\<lambda>lgl w. w @ [Release lgl]),
       lgladd = (\<lambda>lgl c w. w @ [Add lgl c]),
       lglsat = (\<lambda>lgl w. (verdict (added lgl w), w @ [Sat lgl])),
       lglderef = (\<lambda>lgl c w. (if Sat lgl \<in> set w then assignment c else 0, w @ [Deref lgl c])),
       LGL_SATISFIABLE = 10 \<rparr>"

text \<open>The same engine, except that a dereference is not recorded.\<close>

definition reading_engine ::
  "(c_int list \<Rightarrow> c_int) \<Rightarrow> (c_int \<Rightarrow> c_int) \<Rightarrow> lgl_call list engine" where
  "reading_engine verdict assignment =
     (recording_engine verdict assignment)
       \<lparr> lglderef := (\<lambda>lgl c w. (if Sat lgl \<in> set w then assignment c else 0, w)) \<rparr>"

text \<open>
  A call with the given arguments in a Lua state where the Solver class is table 1,
  no basic type has a metatable, no table has an \<^verbatim>\<open>__eq\<close> metamethod, and a string
  converts to an integer when it is a decimal numeral, with or without a sign, in
  the range of \<^verbatim>\<open>lua_Integer\<close>. (Lua converts more strings: numerals between
  spaces, hexadecimal ones, floats with an integral value. The examples use none.)
\<close>

fun digits :: "string \<Rightarrow> int \<Rightarrow> int option" where
  "digits [] a = Some a"
| "digits (c # cs) a =
     (if (48::nat) \<le> of_char c \<and> of_char c \<le> (57::nat)
      then digits cs (a * 10 + (int (of_char c) - 48)) else None)"

definition unsigned :: "string \<Rightarrow> int option" where
  "unsigned s = (if s = [] then None else digits s 0)"

definition decimal :: "string \<Rightarrow> lua_Integer option" where
  "decimal s =
     (case s of
        [] \<Rightarrow> None
      | c # cs \<Rightarrow>
          if c = CHR ''-'' then
            (case unsigned cs of
               None \<Rightarrow> None
             | Some v \<Rightarrow> if v \<le> 2 ^ 63 then Some (- v) else None)
          else
            (case unsigned (if c = CHR ''+'' then cs else s) of
               None \<Rightarrow> None
             | Some v \<Rightarrow> if v < 2 ^ 63 then Some v else None))"

definition call_with :: "lua_value list \<Rightarrow> lua_State" where
  "call_with args =
     \<lparr> stack = args, upvalue1 = 1, type_mt = (\<lambda>t. None), str2integer = decimal,
       eq_tm = (\<lambda>a b. False) \<rparr>"

text \<open>
  The same call after the script has run
  \<^verbatim>\<open>setmetatable(Solver, {__eq = function() return true end})\<close>: comparing the class
  table (the first operand in \<^verbatim>\<open>get_lgl\<close>) with another table answers true.
\<close>

definition call_with_eq :: "lua_value list \<Rightarrow> lua_State" where
  "call_with_eq args = (call_with args) \<lparr> eq_tm := (\<lambda>a b. a = 1) \<rparr>"

section \<open>Unfolding the runtime\<close>

lemmas lua_defs = get_lgl_def call_with_def lua_getmetatable_def index2value_def
  lua_gettop_def lua_compare_eq_def lua_touserdata_def lua_type_def lua_tointegerx_def
  tointegerx_def tointeger_def lua_len_def lua_geti_def lua_seti_def

lemma get_lgl_fails:
  assumes "lua_getmetatable L 1 = None
         \<or> (\<exists>mt. lua_getmetatable L 1 = Some mt \<and> \<not> lua_compare_eq L (upvalue1 L) mt)
         \<or> lua_touserdata L 1 = None"
  shows "get_lgl L = Inl ''Invalid self argument''"
  using assms by (auto simp: get_lgl_def split: option.splits)

section \<open>Clause submission: the loops\<close>

lemma to_int_in_range: "int_range c \<Longrightarrow> to_int c = c"
  by (simp add: int_range_def to_int_def)

lemma map_to_int_in_range: "list_all int_range cs \<Longrightarrow> map to_int cs = cs"
  by (induction cs) (simp_all add: to_int_in_range)

lemma add_table_drop:
  "1 \<le> j \<Longrightarrow> add_table eng L lgl (LTable mt xs) (int (length xs)) j w =
     add_values eng L lgl (drop (nat (j - 1)) xs) w"
proof (induction eng L lgl "LTable mt xs" "int (length xs)" j w rule: add_table.induct)
  case (1 eng L lgl j w)
  show ?case
  proof (cases "j \<le> int (length xs)")
    case False
    then show ?thesis by (simp add: add_table.simps [of _ _ _ _ _ j])
  next
    case True
    with 1(2) have lt: "nat (j - 1) < length xs" by linarith
    have nj: "Suc (nat (j - 1)) = nat (j + 1 - 1)" using 1(2) by linarith
    have dr: "drop (nat (j - 1)) xs = xs ! nat (j - 1) # drop (nat (j + 1 - 1)) xs"
      using Cons_nth_drop_Suc [OF lt] nj by simp
    have gi: "lua_geti (LTable mt xs) j = xs ! nat (j - 1)"
      using True 1(2) by (simp add: lua_geti_def)
    show ?thesis
    proof (cases "tointegerx L (xs ! nat (j - 1))")
      case None
      then show ?thesis using True gi dr by (simp add: add_table.simps [of _ _ _ _ _ j])
    next
      case (Some c)
      have "1 \<le> j + 1" using 1(2) by simp
      from 1(1) [OF True _ this, of c] Some gi
      have "add_table eng L lgl (LTable mt xs) (int (length xs)) (j + 1)
              (lgladd eng lgl (to_int c) w) =
            add_values eng L lgl (drop (nat (j + 1 - 1)) xs) (lgladd eng lgl (to_int c) w)"
        by simp
      then show ?thesis using True gi dr Some
        by (simp add: add_table.simps [of _ _ _ _ _ j])
    qed
  qed
qed

lemma add_table_all:
  "add_table eng L lgl (LTable mt xs) (lua_len (LTable mt xs)) 1 w = add_values eng L lgl xs w"
  using add_table_drop [of 1 eng L lgl mt xs w] by (simp add: lua_len_def)

lemma add_values_append:
  "add_values eng L lgl (xs @ ys) w =
     (case add_values eng L lgl xs w of
        (Inl msg, w') \<Rightarrow> (Inl msg, w')
      | (Inr u, w') \<Rightarrow> add_values eng L lgl ys w')"
  by (induction xs arbitrary: w) (auto split: option.splits)

lemma elements_not_table:
  "ttype v \<noteq> LUA_TTABLE \<Longrightarrow> elements (v # args) = v # elements args"
  by (cases v) simp_all

lemma add_args_drop:
  "1 \<le> i \<Longrightarrow> add_args eng L lgl (lua_gettop L) i w =
     add_values eng L lgl (elements (drop (nat (i - 1)) (stack L))) w"
proof (induction eng L lgl "lua_gettop L" i w rule: add_args.induct)
  case (1 eng L lgl i w)
  show ?case
  proof (cases "i \<le> lua_gettop L")
    case False
    then have "drop (nat (i - 1)) (stack L) = []" by (simp add: lua_gettop_def)
    with False show ?thesis by (simp add: add_args.simps [of _ _ _ _ i])
  next
    case True
    with 1(3) have lt: "nat (i - 1) < length (stack L)" by (simp add: lua_gettop_def)
    have ni: "Suc (nat (i - 1)) = nat (i + 1 - 1)" using 1(3) by linarith
    have iv: "index2value L i = stack L ! nat (i - 1)"
      using True 1(3) by (simp add: index2value_def)
    have dr: "drop (nat (i - 1)) (stack L) = index2value L i # drop (nat (i + 1 - 1)) (stack L)"
      using Cons_nth_drop_Suc [OF lt] ni iv by simp
    have i1: "1 \<le> i + 1" using 1(3) by simp
    show ?thesis
    proof (cases "lua_type L i = LUA_TTABLE")
      case tab: True
      then obtain mt xs where v: "index2value L i = LTable mt xs"
        by (cases "index2value L i") (simp_all add: lua_type_def)
      show ?thesis
      proof (cases "add_table eng L lgl (index2value L i) (lua_len (index2value L i)) 1 w")
        case (Pair r w')
        show ?thesis
        proof (cases r)
          case (Inl msg)
          with Pair True tab v dr show ?thesis
            by (simp add: add_args.simps [of _ _ _ _ i] add_table_all add_values_append)
        next
          case (Inr u)
          from 1(1) [OF True tab _ _ i1, of r w' u] Pair Inr
          have "add_args eng L lgl (lua_gettop L) (i + 1) w' =
                add_values eng L lgl (elements (drop (nat (i + 1 - 1)) (stack L))) w'" by simp
          with Pair Inr True tab v dr show ?thesis
            by (simp add: add_args.simps [of _ _ _ _ i] add_table_all add_values_append)
        qed
      qed
    next
      case nt: False
      then have el: "elements (drop (nat (i - 1)) (stack L)) =
                     index2value L i # elements (drop (nat (i + 1 - 1)) (stack L))"
        using dr elements_not_table [of "index2value L i"] by (simp add: lua_type_def)
      show ?thesis
      proof (cases "tointegerx L (index2value L i)")
        case None
        with True nt el show ?thesis
          by (simp add: add_args.simps [of _ _ _ _ i] lua_tointegerx_def)
      next
        case (Some c)
        from 1(2) [OF True nt _ i1, of c] Some
        have "add_args eng L lgl (lua_gettop L) (i + 1) (lgladd eng lgl (to_int c) w) =
              add_values eng L lgl (elements (drop (nat (i + 1 - 1)) (stack L)))
                (lgladd eng lgl (to_int c) w)"
          by (simp add: lua_tointegerx_def)
        with Some True nt el show ?thesis
          by (simp add: add_args.simps [of _ _ _ _ i] lua_tointegerx_def)
      qed
    qed
  qed
qed

lemma add_values_eq:
  "add_values eng L lgl vs w =
     (if list_all (\<lambda>v. tointegerx L v \<noteq> None) vs then Inr ()
      else Inl ''Illegal argument in DIMACS sequence'',
      fold (lgladd eng lgl) (map to_int (converted_prefix L vs)) w)"
  by (induction vs arbitrary: w) (auto split: option.splits)

lemma is_integer_converts: "is_integer v \<Longrightarrow> tointegerx L v \<noteq> None"
  by (cases v) (simp_all add: tointegerx_def)

lemma integers_convert:
  "list_all is_integer xs \<Longrightarrow> list_all (\<lambda>v. tointegerx L v \<noteq> None) xs"
  unfolding list_all_iff using is_integer_converts by blast

lemma integers_converted:
  "list_all is_integer xs \<Longrightarrow> converted_prefix L xs = integers xs"
proof (induction xs)
  case Nil
  show ?case by simp
next
  case (Cons x xs)
  then show ?case by (cases x) (simp_all add: tointegerx_def)
qed

lemma converted_prefix_append:
  "list_all (\<lambda>v. tointegerx L v \<noteq> None) xs \<Longrightarrow>
   converted_prefix L (xs @ ys) = converted_prefix L xs @ converted_prefix L ys"
  by (induction xs) (auto split: option.splits)

lemma elements_integer_valued:
  "list_all integer_valued args \<Longrightarrow>
   list_all (\<lambda>v. tointegerx L v \<noteq> None) (elements args) \<and>
   converted_prefix L (elements args) = literal_stream args"
proof (induction args)
  case Nil
  show ?case by (simp add: literal_stream_def)
next
  case (Cons a args)
  then have ih: "list_all (\<lambda>v. tointegerx L v \<noteq> None) (elements args)"
    "converted_prefix L (elements args) = literal_stream args" by simp_all
  from Cons.prems have a: "integer_valued a" by simp
  show ?case
  proof (cases a)
    case (LInteger c)
    with ih show ?thesis by (simp add: literal_stream_def tointegerx_def)
  next
    case (LTable mt xs)
    with a have xs: "list_all is_integer xs" by simp
    then have cv: "list_all (\<lambda>v. tointegerx L v \<noteq> None) xs"
      by (rule integers_convert)
    show ?thesis
      using LTable ih cv integers_converted [OF xs, of L]
      by (simp add: converted_prefix_append) (simp add: literal_stream_def)
  qed (use a in simp_all)
qed

lemma converted_prefix_takeWhile:
  "converted_prefix L vs =
     map (tointeger L) (takeWhile (\<lambda>v. tointegerx L v \<noteq> None) vs)"
  by (induction vs) (auto simp: tointeger_def split: option.splits)

lemma add_integer_valued:
  assumes self: "get_lgl L = Inr lgl"
      and args: "stack L = self # args"
      and ints: "list_all integer_valued args"
  shows "Solver_addDIMACSSeqence eng L w =
           (Inr [], fold (lgladd eng lgl) (map to_int (literal_stream args)) w)"
proof -
  have "add_args eng L lgl (lua_gettop L) 2 w = add_values eng L lgl (elements args) w"
    using add_args_drop [of 2 eng L lgl w] args by simp
  then show ?thesis
    using self elements_integer_valued [OF ints, of L]
    by (simp add: Solver_addDIMACSSeqence_def add_values_eq)
qed

section \<open>Literal query: the loop\<close>

lemma query_loop_drop:
  "1 \<le> j \<Longrightarrow> index2value L 2 = LTable mt xs \<Longrightarrow> int (length rs) = j - 1 \<Longrightarrow>
   query_loop eng L lgl (int (length xs)) j (LTable None rs) w =
     query_values eng L lgl (drop (nat (j - 1)) xs) rs w"
proof (induction eng L lgl "int (length xs)" j "LTable None rs" w arbitrary: rs
       rule: query_loop.induct)
  case (1 eng L lgl j w)
  show ?case
  proof (cases "j \<le> int (length xs)")
    case False
    then show ?thesis by (simp add: query_loop.simps [of _ _ _ _ j])
  next
    case True
    with 1(2) have lt: "nat (j - 1) < length xs" by linarith
    have nj: "Suc (nat (j - 1)) = nat (j + 1 - 1)" using 1(2) by linarith
    have dr: "drop (nat (j - 1)) xs = xs ! nat (j - 1) # drop (nat (j + 1 - 1)) xs"
      using Cons_nth_drop_Suc [OF lt] nj by simp
    have gi: "lua_geti (index2value L 2) j = xs ! nat (j - 1)"
      using True 1(2,3) by (simp add: lua_geti_def)
    let ?c = "tointeger L (xs ! nat (j - 1))"
    show ?thesis
    proof (cases "?c = 0")
      case z: True
      then show ?thesis using True gi dr by (simp add: query_loop.simps [of _ _ _ _ j])
    next
      case nz: False
      obtain r w' where d: "lglderef eng lgl (to_int ?c) w = (r, w')"
        by (cases "lglderef eng lgl (to_int ?c) w")
      have st: "lua_seti (LTable None rs) j (LInteger r) = LTable None (rs @ [LInteger r])"
        using 1(4) by (simp add: lua_seti_def)
      have len: "int (length (rs @ [LInteger r])) = j + 1 - 1" using 1(4) by simp
      have j1: "1 \<le> j + 1" using 1(2) by simp
      have nz': "tointeger L (lua_geti (index2value L 2) j) \<noteq> 0" using nz gi by simp
      have d': "(r, w') = lglderef eng lgl (to_int (tointeger L (lua_geti (index2value L 2) j))) w"
        using d gi by simp
      have "query_loop eng L lgl (int (length xs)) (j + 1) (LTable None (rs @ [LInteger r])) w' =
            query_values eng L lgl (drop (nat (j + 1 - 1)) xs) (rs @ [LInteger r]) w'"
        using 1(1) [OF True refl nz' d' st j1 1(3) len] .
      then show ?thesis using True gi dr nz d st
        by (simp add: query_loop.simps [of _ _ _ _ j])
    qed
  qed
qed

lemma query_values_nonzero:
  "list_all (\<lambda>v. tointeger L v \<noteq> 0) vs \<Longrightarrow>
   query_values eng L lgl vs rs w =
     (Inr (LTable None
        (rs @ map LInteger (fst (deref_each eng lgl (map (\<lambda>v. to_int (tointeger L v)) vs) w)))),
      snd (deref_each eng lgl (map (\<lambda>v. to_int (tointeger L v)) vs) w))"
  by (induction vs arbitrary: rs w) (auto split: prod.splits)

lemma query_values_zero:
  "\<not> list_all (\<lambda>v. tointeger L v \<noteq> 0) vs \<Longrightarrow>
   query_values eng L lgl vs rs w =
     (Inl ''Array may contain only non-zero integers'',
      snd (deref_each eng lgl
        (map (\<lambda>v. to_int (tointeger L v)) (takeWhile (\<lambda>v. tointeger L v \<noteq> 0) vs)) w))"
  by (induction vs arbitrary: rs w) (auto split: prod.splits)

lemma length_deref_each: "length (fst (deref_each eng lgl cs w)) = length cs"
proof (induction cs arbitrary: w)
  case Nil
  show ?case by simp
next
  case (Cons c cs)
  obtain r w' where d: "lglderef eng lgl c w = (r, w')" by (cases "lglderef eng lgl c w")
  obtain rs w'' where e: "deref_each eng lgl cs w' = (rs, w'')"
    by (cases "deref_each eng lgl cs w'")
  show ?case using Cons [of w'] d e by simp
qed

lemma Solver_query_table:
  assumes "get_lgl L = Inr lgl" and "stack L = [self, LTable mt vs]"
  shows "Solver_query eng L w =
           (case query_values eng L lgl vs [] w of
              (Inl msg, w') \<Rightarrow> (Inl msg, w')
            | (Inr res, w') \<Rightarrow> (Inr [res], w'))"
proof -
  have v: "index2value L 2 = LTable mt vs"
    using assms(2) by (simp add: index2value_def lua_gettop_def)
  have "query_loop eng L lgl (int (length vs)) 1 (LTable None []) w =
        query_values eng L lgl (drop (nat (1 - 1)) vs) [] w"
    by (rule query_loop_drop [OF _ v]) simp_all
  then show ?thesis
    using assms v by (simp add: Solver_query_def lua_gettop_def lua_type_def lua_len_def)
qed

lemma tointeger_LInteger: "tointeger L (LInteger c) = c"
  by (simp add: tointeger_def tointegerx_def)

lemma deref_each_nth:
  "j < length cs \<Longrightarrow>
   fst (deref_each eng lgl cs w) ! j =
     fst (lglderef eng lgl (cs ! j) (snd (deref_each eng lgl (take j cs) w)))"
proof (induction cs arbitrary: j w)
  case Nil
  then show ?case by simp
next
  case (Cons c cs)
  obtain r w' where d: "lglderef eng lgl c w = (r, w')" by (cases "lglderef eng lgl c w")
  obtain rs w'' where e: "deref_each eng lgl cs w' = (rs, w'')"
    by (cases "deref_each eng lgl cs w'")
  show ?case
  proof (cases j)
    case 0
    then show ?thesis using d e by simp
  next
    case (Suc k)
    obtain ps u where t: "deref_each eng lgl (take k cs) w' = (ps, u)"
      by (cases "deref_each eng lgl (take k cs) w'")
    from Suc Cons.prems have "k < length cs" by simp
    from Cons.IH [OF this, of w'] show ?thesis using Suc d e t by simp
  qed
qed

lemma deref_each_reads:
  "deref_reads eng \<Longrightarrow>
   deref_each eng lgl cs w = (map (\<lambda>c. fst (lglderef eng lgl c w)) cs, w)"
proof (induction cs)
  case Nil
  show ?case by simp
next
  case (Cons c cs)
  from Cons.prems have "snd (lglderef eng lgl c w) = w" by (simp add: deref_reads_def)
  then obtain r where "lglderef eng lgl c w = (r, w)" by (cases "lglderef eng lgl c w") simp
  with Cons show ?case by simp
qed

lemma query_nonzero_integers:
  assumes "get_lgl L = Inr lgl" and "stack L = [self, LTable mt (map LInteger cs)]"
      and "0 \<notin> set cs"
  shows "Solver_query eng L w =
           (Inr [LTable None (map LInteger (fst (deref_each eng lgl (map to_int cs) w)))],
            snd (deref_each eng lgl (map to_int cs) w))"
proof -
  have nz: "list_all (\<lambda>v. tointeger L v \<noteq> 0) (map LInteger cs)"
    using assms(3) by (auto simp: list_all_iff tointeger_LInteger)
  show ?thesis
    using Solver_query_table [OF assms(1,2), of eng w]
      query_values_nonzero [OF nz, of eng lgl "[]" w]
    by (simp add: comp_def tointeger_LInteger)
qed

lemma unsolved_userdata:
  "unsolved eng L self w \<Longrightarrow> \<exists>lgl. self = LUserdata (Some (upvalue1 L)) lgl"
  by (induction rule: unsolved.induct) (auto simp: Solver_new_def split: prod.splits)

lemma get_lgl_userdata:
  "get_lgl (L\<lparr>stack := LUserdata (Some (upvalue1 L)) lgl # args\<rparr>) = Inr lgl"
  by (simp add: lua_defs)

section \<open>Satisfiability\<close>

text \<open>
  C1. On a valid session, \<open>isSatisfiable\<close> makes exactly one \<^verbatim>\<open>lglsat\<close> call on the
  session's engine and returns the single boolean \<open>true\<close> if the engine's result is
  \<open>LGL_SATISFIABLE\<close> and \<open>false\<close> for every other result; the engine state afterwards
  is the one that call leaves.
\<close>

theorem isSatisfiable_iff_engine_sat:
  assumes "get_lgl L = Inr lgl"
  shows "Solver_isSatisfiable eng L w =
           (Inr [LBoolean (fst (lglsat eng lgl w) = LGL_SATISFIABLE eng)],
            snd (lglsat eng lgl w))"
  using assms by (simp add: Solver_isSatisfiable_def split: prod.splits)

theorem isSatisfiable_iff_engine_sat_witness:
  "get_lgl (call_with [LUserdata (Some 1) 0]) = Inr 0 \<and>
   Solver_isSatisfiable (recording_engine (\<lambda>cs. 10) id) (call_with [LUserdata (Some 1) 0])
       [Init 0, Add 0 1, Add 0 0]
     = (Inr [LBoolean True], [Init 0, Add 0 1, Add 0 0, Sat 0]) \<and>
   Solver_isSatisfiable (recording_engine (\<lambda>cs. 20) id) (call_with [LUserdata (Some 1) 0])
       [Init 0, Add 0 1, Add 0 0, Add 0 (- 1), Add 0 0]
     = (Inr [LBoolean False], [Init 0, Add 0 1, Add 0 0, Add 0 (- 1), Add 0 0, Sat 0]) \<and>
   Solver_isSatisfiable (recording_engine (\<lambda>cs. 0) id) (call_with [LUserdata (Some 1) 0])
       [Init 0]
     = (Inr [LBoolean False], [Init 0, Sat 0])"
proof -
  have g: "get_lgl (call_with [LUserdata (Some 1) 0]) = Inr 0"
    by (simp add: lua_defs)
  show ?thesis
    using g
      isSatisfiable_iff_engine_sat [OF g, of "recording_engine (\<lambda>cs. 10) id" "[Init 0, Add 0 1, Add 0 0]"]
      isSatisfiable_iff_engine_sat [OF g, of "recording_engine (\<lambda>cs. 20) id"
        "[Init 0, Add 0 1, Add 0 0, Add 0 (- 1), Add 0 0]"]
      isSatisfiable_iff_engine_sat [OF g, of "recording_engine (\<lambda>cs. 0) id" "[Init 0]"]
    by (simp add: recording_engine_def)
qed

section \<open>Self validation\<close>

text \<open>
  C5 says that a self argument whose metatable is different from the Solver class
  is rejected. It does not hold: \<^verbatim>\<open>get_lgl\<close> compares with \<^verbatim>\<open>lua_compare\<close> and
  \<^verbatim>\<open>LUA_OPEQ\<close>, which runs \<^verbatim>\<open>__eq\<close>. Once the script has given the class table a
  metatable whose \<^verbatim>\<open>__eq\<close> answers true, a userdata with another metatable passes and
  the engine is called with what its block holds.
\<close>

theorem foreign_userdata_accepted_counterexample:
  "lua_getmetatable (call_with_eq [LUserdata (Some 2) 7]) 1 = Some 2 \<and>
   upvalue1 (call_with_eq [LUserdata (Some 2) 7]) = 1 \<and>
   Solver_isSatisfiable (recording_engine (\<lambda>cs. 10) id) (call_with_eq [LUserdata (Some 2) 7])
       [Init 0]
     = (Inr [LBoolean True], [Init 0, Sat 7])"
  by (simp add: Solver_isSatisfiable_def recording_engine_def call_with_eq_def lua_defs)

text \<open>
  C5, amended. When the self argument fails the validation of \<^verbatim>\<open>get_lgl\<close> (it has no
  metatable, or Lua's equality, which is identity or else the answer of an \<^verbatim>\<open>__eq\<close>
  metamethod, does not find its metatable equal to the Solver class, or it is not a
  userdata), each of \<open>addDIMACSequence\<close>, \<open>isSatisfiable\<close> and \<open>query\<close> fails with the
  message "Invalid self argument", and the engine state is the one before the call,
  whatever the engine: no engine function has been called.
\<close>

theorem invalid_self_rejected:
  assumes "lua_getmetatable L 1 = None
         \<or> (\<exists>mt. lua_getmetatable L 1 = Some mt \<and> \<not> lua_compare_eq L (upvalue1 L) mt)
         \<or> lua_touserdata L 1 = None"
  shows "Solver_addDIMACSSeqence eng L w = (Inl ''Invalid self argument'', w) \<and>
         Solver_isSatisfiable eng L w = (Inl ''Invalid self argument'', w) \<and>
         Solver_query eng L w = (Inl ''Invalid self argument'', w)"
  using get_lgl_fails [OF assms]
  by (simp add: Solver_addDIMACSSeqence_def Solver_isSatisfiable_def Solver_query_def)

theorem invalid_self_rejected_witness:
  "lua_getmetatable (call_with []) 1 = None \<and>
   Solver_query (recording_engine (\<lambda>cs. 10) id) (call_with []) [Init 0]
     = (Inl ''Invalid self argument'', [Init 0]) \<and>
   (\<exists>mt. lua_getmetatable (call_with [LUserdata (Some 2) 0, LInteger 1]) 1 = Some mt
       \<and> \<not> lua_compare_eq (call_with [LUserdata (Some 2) 0, LInteger 1])
             (upvalue1 (call_with [LUserdata (Some 2) 0, LInteger 1])) mt) \<and>
   Solver_addDIMACSSeqence (recording_engine (\<lambda>cs. 10) id)
       (call_with [LUserdata (Some 2) 0, LInteger 1]) [Init 0]
     = (Inl ''Invalid self argument'', [Init 0]) \<and>
   lua_touserdata (call_with_eq [LTable (Some 2) []]) 1 = None \<and>
   Solver_isSatisfiable (recording_engine (\<lambda>cs. 10) id) (call_with_eq [LTable (Some 2) []]) [Init 0]
     = (Inl ''Invalid self argument'', [Init 0])"
proof -
  have a: "lua_getmetatable (call_with []) 1 = None" by (simp add: lua_defs)
  have b: "\<exists>mt. lua_getmetatable (call_with [LUserdata (Some 2) 0, LInteger 1]) 1 = Some mt
       \<and> \<not> lua_compare_eq (call_with [LUserdata (Some 2) 0, LInteger 1])
             (upvalue1 (call_with [LUserdata (Some 2) 0, LInteger 1])) mt"
    by (simp add: lua_defs)
  have c: "lua_touserdata (call_with_eq [LTable (Some 2) []]) 1 = None"
    by (simp add: call_with_eq_def lua_defs)
  show ?thesis
    using a b c
      invalid_self_rejected [of "call_with []" "recording_engine (\<lambda>cs. 10) id" "[Init 0]"]
      invalid_self_rejected [of "call_with [LUserdata (Some 2) 0, LInteger 1]"
        "recording_engine (\<lambda>cs. 10) id" "[Init 0]"]
      invalid_self_rejected [of "call_with_eq [LTable (Some 2) []]"
        "recording_engine (\<lambda>cs. 10) id" "[Init 0]"]
    by blast
qed

section \<open>Clause submission\<close>

text \<open>
  C3 says that a submission of integers forwards exactly the supplied literals and
  that the module adds no 0. It does not hold for a literal outside the range of a
  C \<^verbatim>\<open>int\<close>: the \<^verbatim>\<open>lua_Integer\<close> is passed for the \<^verbatim>\<open>int\<close> parameter of \<^verbatim>\<open>lgladd\<close>, so
  in \<open>addDIMACSequence(5, 4294967296, 6)\<close> the engine receives 5, 0, 6.
\<close>

theorem submission_narrows_literal_counterexample:
  "list_all integer_valued [LInteger 5, LInteger 4294967296, LInteger 6] \<and>
   literal_stream [LInteger 5, LInteger 4294967296, LInteger 6] = [5, 4294967296, 6] \<and>
   Solver_addDIMACSSeqence (recording_engine (\<lambda>cs. 10) id)
       (call_with [LUserdata (Some 1) 0, LInteger 5, LInteger 4294967296, LInteger 6]) [Init 0]
     = (Inr [], [Init 0, Add 0 5, Add 0 0, Add 0 6])"
proof -
  let ?args = "[LInteger 5, LInteger 4294967296, LInteger 6]"
  have g: "get_lgl (call_with (LUserdata (Some 1) 0 # ?args)) = Inr 0" by (simp add: lua_defs)
  have s: "stack (call_with (LUserdata (Some 1) 0 # ?args)) = LUserdata (Some 1) 0 # ?args"
    by (simp add: call_with_def)
  have i: "list_all integer_valued ?args" by simp
  show ?thesis
    using add_integer_valued [OF g s i, of "recording_engine (\<lambda>cs. 10) id" "[Init 0]"]
    by (simp add: recording_engine_def literal_stream_def to_int_def)
qed

text \<open>
  C3, amended. On a valid session, a clause submission whose arguments are each an
  integer or a table of integers, every literal in the range of a C \<^verbatim>\<open>int\<close>, returns
  nothing and hands to \<^verbatim>\<open>lgladd\<close> exactly the literal stream of the arguments
  (argument order, then collection order), one call for each literal and in that
  order; no other engine call is made, so no literal is reordered and none, in
  particular no 0, is added by the module.
\<close>

theorem submission_forwards_literals:
  assumes self: "get_lgl L = Inr lgl"
      and args: "stack L = self # args"
      and ints: "list_all integer_valued args"
      and range: "list_all int_range (literal_stream args)"
  shows "Solver_addDIMACSSeqence eng L w =
           (Inr [], fold (lgladd eng lgl) (literal_stream args) w)"
  using add_integer_valued [OF self args ints, of eng w] map_to_int_in_range [OF range]
  by simp

theorem submission_forwards_literals_witness:
  "get_lgl (call_with [LUserdata (Some 1) 0, LInteger 1, LTable None [LInteger (- 2), LInteger 0],
       LInteger 3]) = Inr 0 \<and>
   list_all integer_valued [LInteger 1, LTable None [LInteger (- 2), LInteger 0], LInteger 3] \<and>
   list_all int_range
     (literal_stream [LInteger 1, LTable None [LInteger (- 2), LInteger 0], LInteger 3]) \<and>
   Solver_addDIMACSSeqence (recording_engine (\<lambda>cs. 10) id)
       (call_with [LUserdata (Some 1) 0, LInteger 1, LTable None [LInteger (- 2), LInteger 0],
          LInteger 3]) [Init 0]
     = (Inr [], [Init 0, Add 0 1, Add 0 (- 2), Add 0 0, Add 0 3])"
proof -
  let ?args = "[LInteger 1, LTable None [LInteger (- 2), LInteger 0], LInteger 3]"
  have g: "get_lgl (call_with (LUserdata (Some 1) 0 # ?args)) = Inr 0" by (simp add: lua_defs)
  have s: "stack (call_with (LUserdata (Some 1) 0 # ?args)) = LUserdata (Some 1) 0 # ?args"
    by (simp add: call_with_def)
  have i: "list_all integer_valued ?args" by simp
  have r: "list_all int_range (literal_stream ?args)"
    by (simp add: literal_stream_def int_range_def)
  show ?thesis
    using g i r
      submission_forwards_literals [OF g s i r, of "recording_engine (\<lambda>cs. 10) id" "[Init 0]"]
    by (simp add: recording_engine_def literal_stream_def)
qed

text \<open>
  C2 says that a submission with an element that is not representable as an integer
  forwards nothing to the engine. It does not hold: the loops hand each literal
  to \<^verbatim>\<open>lgladd\<close> as soon as it has converted, so in \<open>addDIMACSequence({1, 2, "x"})\<close> the
  literals 1 and 2 have reached the engine when \<open>"x"\<close> raises the error.
\<close>

theorem malformed_batch_leaks_counterexample:
  "Solver_addDIMACSSeqence (recording_engine (\<lambda>cs. 10) id)
       (call_with [LUserdata (Some 1) 0, LTable None [LInteger 1, LInteger 2, LString ''x'']])
       [Init 0]
     = (Inl ''Illegal argument in DIMACS sequence'', [Init 0, Add 0 1, Add 0 2]) \<and>
   snd (Solver_addDIMACSSeqence (recording_engine (\<lambda>cs. 10) id)
       (call_with [LUserdata (Some 1) 0, LTable None [LInteger 1, LInteger 2, LString ''x'']])
       [Init 0]) \<noteq> [Init 0]"
proof -
  let ?L = "call_with [LUserdata (Some 1) 0, LTable None [LInteger 1, LInteger 2, LString ''x'']]"
  have g: "get_lgl ?L = Inr 0" by (simp add: lua_defs)
  have "add_args (recording_engine (\<lambda>cs. 10) id) ?L 0 (lua_gettop ?L) 2 [Init 0] =
        add_values (recording_engine (\<lambda>cs. 10) id) ?L 0
          [LInteger 1, LInteger 2, LString ''x''] [Init 0]"
    using add_args_drop [of 2 "recording_engine (\<lambda>cs. 10) id" ?L 0 "[Init 0]"]
    by (simp add: call_with_def)
  then show ?thesis
    using g by (simp add: Solver_addDIMACSSeqence_def tointegerx_def recording_engine_def
        call_with_def decimal_def unsigned_def to_int_def)
qed

text \<open>
  C2, amended. On a valid session, a clause submission with a value that does not
  convert to an integer fails with "Illegal argument in DIMACS sequence"; the
  literals before the first such value (argument order, then collection order) have
  been handed to \<^verbatim>\<open>lgladd\<close>, in order, each passed for a C \<^verbatim>\<open>int\<close>, and nothing from
  that value on has.
\<close>

theorem malformed_batch_prefix_forwarded:
  assumes self: "get_lgl L = Inr lgl"
      and args: "stack L = self # args"
      and bad: "\<not> list_all (\<lambda>v. tointegerx L v \<noteq> None) (elements args)"
  shows "Solver_addDIMACSSeqence eng L w =
           (Inl ''Illegal argument in DIMACS sequence'',
            fold (lgladd eng lgl)
              (map to_int
                 (map (tointeger L)
                    (takeWhile (\<lambda>v. tointegerx L v \<noteq> None) (elements args)))) w)"
proof -
  have "add_args eng L lgl (lua_gettop L) 2 w = add_values eng L lgl (elements args) w"
    using add_args_drop [of 2 eng L lgl w] args by simp
  then show ?thesis
    using self bad
    by (simp add: Solver_addDIMACSSeqence_def add_values_eq converted_prefix_takeWhile)
qed

theorem malformed_batch_prefix_forwarded_witness:
  "get_lgl (call_with [LUserdata (Some 1) 0, LInteger 7, LTable None [LInteger 1, LString ''x'', LInteger 2]])
     = Inr 0 \<and>
   \<not> list_all (\<lambda>v. tointegerx (call_with []) v \<noteq> None)
       (elements [LInteger 7, LTable None [LInteger 1, LString ''x'', LInteger 2]]) \<and>
   Solver_addDIMACSSeqence (recording_engine (\<lambda>cs. 10) id)
       (call_with [LUserdata (Some 1) 0, LInteger 7, LTable None [LInteger 1, LString ''x'', LInteger 2]])
       [Init 0]
     = (Inl ''Illegal argument in DIMACS sequence'', [Init 0, Add 0 7, Add 0 1])"
proof -
  let ?args = "[LInteger 7, LTable None [LInteger 1, LString ''x'', LInteger 2]]"
  let ?L = "call_with (LUserdata (Some 1) 0 # ?args)"
  have g: "get_lgl ?L = Inr 0" by (simp add: lua_defs)
  have s: "stack ?L = LUserdata (Some 1) 0 # ?args" by (simp add: call_with_def)
  have b: "\<not> list_all (\<lambda>v. tointegerx ?L v \<noteq> None) (elements ?args)"
    by (simp add: tointegerx_def call_with_def decimal_def unsigned_def)
  have b': "\<not> list_all (\<lambda>v. tointegerx (call_with []) v \<noteq> None) (elements ?args)"
    by (simp add: tointegerx_def call_with_def decimal_def unsigned_def)
  show ?thesis
    using g b'
      malformed_batch_prefix_forwarded [OF g s b, of "recording_engine (\<lambda>cs. 10) id" "[Init 0]"]
    by (simp add: recording_engine_def tointegerx_def tointeger_def call_with_def decimal_def
        unsigned_def to_int_def)
qed

section \<open>Literal query\<close>

text \<open>
  C4 says that the \<open>j\<close>-th output of a query of non-zero integers is the engine's
  answer for the \<open>j\<close>-th input literal. It does not hold for a literal outside the
  range of a C \<^verbatim>\<open>int\<close>: the test against zero is on the \<^verbatim>\<open>lua_Integer\<close>, the call
  passes it for the \<^verbatim>\<open>int\<close> parameter of \<^verbatim>\<open>lglderef\<close>, so in
  \<open>query({4294967296, 4294967299})\<close> the engine is asked about 0 and about 3.
\<close>

theorem query_narrows_literal_counterexample:
  "(0::int) \<notin> set [4294967296, 4294967299] \<and>
   Solver_query (recording_engine (\<lambda>cs. 10) id)
       (call_with [LUserdata (Some 1) 0, LTable None [LInteger 4294967296, LInteger 4294967299]])
       [Init 0, Sat 0]
     = (Inr [LTable None [LInteger 0, LInteger 3]], [Init 0, Sat 0, Deref 0 0, Deref 0 3])"
proof -
  let ?L = "call_with [LUserdata (Some 1) 0, LTable None (map LInteger [4294967296, 4294967299])]"
  have g: "get_lgl ?L = Inr 0" by (simp add: lua_defs)
  have s: "stack ?L = [LUserdata (Some 1) 0, LTable None (map LInteger [4294967296, 4294967299])]"
    by (simp add: call_with_def)
  have n: "(0::int) \<notin> set [4294967296, 4294967299]" by simp
  show ?thesis
    using n query_nonzero_integers [OF g s n, of "recording_engine (\<lambda>cs. 10) id" "[Init 0, Sat 0]"]
    by (simp add: recording_engine_def to_int_def)
qed

text \<open>
  C4, amended. On a valid session, a query with a table of non-zero integers, each
  in the range of a C \<^verbatim>\<open>int\<close>, returns one table of the same length whose \<open>j\<close>-th
  entry is the result of \<^verbatim>\<open>lglderef\<close> on the \<open>j\<close>-th literal, the calls being made in
  the order of the table; and a query whose table has an entry 0 fails with "Array
  may contain only non-zero integers".
\<close>

theorem query_returns_derefs:
  assumes self: "get_lgl L = Inr lgl"
      and args: "stack L = [self, LTable mt vs]"
  shows "(vs = map LInteger cs \<and> 0 \<notin> set cs \<and> list_all int_range cs \<longrightarrow>
            Solver_query eng L w =
              (Inr [LTable None (map LInteger (fst (deref_each eng lgl cs w)))],
               snd (deref_each eng lgl cs w)) \<and>
            length (fst (deref_each eng lgl cs w)) = length cs \<and>
            (\<forall>j < length cs.
               fst (deref_each eng lgl cs w) ! j =
                 fst (lglderef eng lgl (cs ! j) (snd (deref_each eng lgl (take j cs) w))))) \<and>
         (LInteger 0 \<in> set vs \<longrightarrow>
            fst (Solver_query eng L w) = Inl ''Array may contain only non-zero integers'')"
proof (intro conjI impI)
  assume a: "vs = map LInteger cs \<and> 0 \<notin> set cs \<and> list_all int_range cs"
  then have st: "stack L = [self, LTable mt (map LInteger cs)]" and nz: "0 \<notin> set cs"
    and r: "map to_int cs = cs"
    using args by (simp_all add: map_to_int_in_range)
  show "Solver_query eng L w =
          (Inr [LTable None (map LInteger (fst (deref_each eng lgl cs w)))],
           snd (deref_each eng lgl cs w))"
    using query_nonzero_integers [OF self st nz, of eng w] r by simp
next
  show "length (fst (deref_each eng lgl cs w)) = length cs" by (rule length_deref_each)
next
  show "\<forall>j < length cs.
               fst (deref_each eng lgl cs w) ! j =
                 fst (lglderef eng lgl (cs ! j) (snd (deref_each eng lgl (take j cs) w)))"
    by (simp add: deref_each_nth)
next
  assume z: "LInteger 0 \<in> set vs"
  have "tointeger L (LInteger 0) = 0" by (rule tointeger_LInteger)
  with z have "\<not> list_all (\<lambda>v. tointeger L v \<noteq> 0) vs"
    unfolding list_all_iff by blast
  from query_values_zero [OF this, of eng lgl "[]" w]
  show "fst (Solver_query eng L w) = Inl ''Array may contain only non-zero integers''"
    using Solver_query_table [OF self args, of eng w] by simp
qed

theorem query_returns_derefs_witness:
  "get_lgl (call_with [LUserdata (Some 1) 0, LTable None [LInteger 3, LInteger (- 1), LInteger 2]])
     = Inr 0 \<and>
   (0::int) \<notin> set [3, - 1, 2] \<and> list_all int_range [3, - 1, 2] \<and>
   Solver_query (recording_engine (\<lambda>cs. 10) (\<lambda>c. if c = 2 then - 2 else c))
       (call_with [LUserdata (Some 1) 0, LTable None [LInteger 3, LInteger (- 1), LInteger 2]])
       [Init 0, Sat 0]
     = (Inr [LTable None [LInteger 3, LInteger (- 1), LInteger (- 2)]],
        [Init 0, Sat 0, Deref 0 3, Deref 0 (- 1), Deref 0 2]) \<and>
   get_lgl (call_with [LUserdata (Some 1) 0, LTable None [LInteger 3, LInteger 0]]) = Inr 0 \<and>
   LInteger 0 \<in> set [LInteger 3, LInteger 0] \<and>
   fst (Solver_query (recording_engine (\<lambda>cs. 10) id)
       (call_with [LUserdata (Some 1) 0, LTable None [LInteger 3, LInteger 0]]) [Init 0, Sat 0])
     = Inl ''Array may contain only non-zero integers''"
proof -
  let ?L = "call_with [LUserdata (Some 1) 0, LTable None [LInteger 3, LInteger (- 1), LInteger 2]]"
  let ?M = "call_with [LUserdata (Some 1) 0, LTable None [LInteger 3, LInteger 0]]"
  have g: "get_lgl ?L = Inr 0" by (simp add: lua_defs)
  have s: "stack ?L = [LUserdata (Some 1) 0, LTable None [LInteger 3, LInteger (- 1), LInteger 2]]"
    by (simp add: call_with_def)
  have h: "get_lgl ?M = Inr 0" by (simp add: lua_defs)
  have t: "stack ?M = [LUserdata (Some 1) 0, LTable None [LInteger 3, LInteger 0]]"
    by (simp add: call_with_def)
  have r: "list_all int_range [3, - 1, 2]" by (simp add: int_range_def)
  show ?thesis
    using g h r
      query_returns_derefs [OF g s, of "[3, - 1, 2]"
        "recording_engine (\<lambda>cs. 10) (\<lambda>c. if c = 2 then - 2 else c)" "[Init 0, Sat 0]"]
      query_returns_derefs [OF h t, of "[]" "recording_engine (\<lambda>cs. 10) id" "[Init 0, Sat 0]"]
    by (simp add: recording_engine_def)
qed

text \<open>
  C7. With an engine whose dereference is a read of its state, on a valid session
  (after a solve or in any other state) a query with a table of non-zero integers
  returns the table of the engine's answers and leaves the engine state as it
  was, so the same query made again right after it returns the same table: the
  module adds no change of its own, its only engine calls are the dereferences.
\<close>

theorem query_twice_same:
  assumes reads: "deref_reads eng"
      and self: "get_lgl L = Inr lgl"
      and args: "stack L = [self, LTable mt (map LInteger cs)]"
      and nz: "0 \<notin> set cs"
  shows "Solver_query eng L w =
           (Inr [LTable None (map (\<lambda>c. LInteger (fst (lglderef eng lgl (to_int c) w))) cs)], w) \<and>
         Solver_query eng L (snd (Solver_query eng L w)) = Solver_query eng L w"
proof -
  have "Solver_query eng L w =
           (Inr [LTable None (map (\<lambda>c. LInteger (fst (lglderef eng lgl (to_int c) w))) cs)], w)"
    using query_nonzero_integers [OF self args nz, of eng w]
      deref_each_reads [OF reads, of lgl "map to_int cs" w]
    by (simp add: comp_def)
  then show ?thesis by simp
qed

theorem query_twice_same_witness:
  "deref_reads (reading_engine (\<lambda>cs. 10) (\<lambda>c. - c)) \<and>
   get_lgl (call_with [LUserdata (Some 1) 0, LTable None (map LInteger [1, 2])]) = Inr 0 \<and>
   (0::int) \<notin> set [1, 2] \<and>
   Solver_query (reading_engine (\<lambda>cs. 10) (\<lambda>c. - c))
       (call_with [LUserdata (Some 1) 0, LTable None (map LInteger [1, 2])])
       [Init 0, Add 0 (- 1), Add 0 (- 2), Add 0 0, Sat 0]
     = (Inr [LTable None [LInteger (- 1), LInteger (- 2)]],
        [Init 0, Add 0 (- 1), Add 0 (- 2), Add 0 0, Sat 0]) \<and>
   Solver_query (reading_engine (\<lambda>cs. 10) (\<lambda>c. - c))
       (call_with [LUserdata (Some 1) 0, LTable None (map LInteger [1, 2])])
       (snd (Solver_query (reading_engine (\<lambda>cs. 10) (\<lambda>c. - c))
          (call_with [LUserdata (Some 1) 0, LTable None (map LInteger [1, 2])])
          [Init 0, Add 0 (- 1), Add 0 (- 2), Add 0 0, Sat 0]))
     = (Inr [LTable None [LInteger (- 1), LInteger (- 2)]],
        [Init 0, Add 0 (- 1), Add 0 (- 2), Add 0 0, Sat 0])"
proof -
  let ?L = "call_with [LUserdata (Some 1) 0, LTable None (map LInteger [1, 2])]"
  let ?E = "reading_engine (\<lambda>cs. 10) (\<lambda>c. - c)"
  have r: "deref_reads ?E" by (simp add: deref_reads_def reading_engine_def)
  have g: "get_lgl ?L = Inr 0" by (simp add: lua_defs)
  have s: "stack ?L = [LUserdata (Some 1) 0, LTable None (map LInteger [1, 2])]"
    by (simp add: call_with_def)
  have n: "(0::int) \<notin> set [1, 2]" by simp
  have d: "lglderef ?E = (\<lambda>lgl c w. (if Sat lgl \<in> set w then - c else 0, w))"
    by (simp add: reading_engine_def)
  show ?thesis
    using r g n
      query_twice_same [OF r g s n, of "[Init 0, Add 0 (- 1), Add 0 (- 2), Add 0 0, Sat 0]"]
    by (simp add: d to_int_def)
qed

text \<open>
  C10. On a valid session, a query whose argument count is not two fails with
  "Query must be called with arguments self and a table", and a query with two
  arguments whose second is not a table fails with "Query must be called with a
  table argument"; in both cases the engine state is the one before the call,
  whatever the engine, so no dereference has been made.
\<close>

theorem query_arity_and_type_errors:
  assumes self: "get_lgl L = Inr lgl"
      and bad: "lua_gettop L \<noteq> 2 \<or> lua_type L 2 \<noteq> LUA_TTABLE"
  shows "Solver_query eng L w =
           (Inl (if lua_gettop L \<noteq> 2
                 then ''Query must be called with arguments self and a table''
                 else ''Query must be called with a table argument''), w)"
  using self bad by (auto simp: Solver_query_def)

theorem query_arity_and_type_errors_witness:
  "get_lgl (call_with [LUserdata (Some 1) 0]) = Inr 0 \<and>
   lua_gettop (call_with [LUserdata (Some 1) 0]) \<noteq> 2 \<and>
   Solver_query (recording_engine (\<lambda>cs. 10) id) (call_with [LUserdata (Some 1) 0]) [Init 0, Sat 0]
     = (Inl ''Query must be called with arguments self and a table'', [Init 0, Sat 0]) \<and>
   get_lgl (call_with [LUserdata (Some 1) 0, LTable None [LInteger 1], LInteger 2]) = Inr 0 \<and>
   lua_gettop (call_with [LUserdata (Some 1) 0, LTable None [LInteger 1], LInteger 2]) \<noteq> 2 \<and>
   Solver_query (recording_engine (\<lambda>cs. 10) id)
       (call_with [LUserdata (Some 1) 0, LTable None [LInteger 1], LInteger 2]) [Init 0, Sat 0]
     = (Inl ''Query must be called with arguments self and a table'', [Init 0, Sat 0]) \<and>
   get_lgl (call_with [LUserdata (Some 1) 0, LInteger 1]) = Inr 0 \<and>
   lua_type (call_with [LUserdata (Some 1) 0, LInteger 1]) 2 \<noteq> LUA_TTABLE \<and>
   Solver_query (recording_engine (\<lambda>cs. 10) id)
       (call_with [LUserdata (Some 1) 0, LInteger 1]) [Init 0, Sat 0]
     = (Inl ''Query must be called with a table argument'', [Init 0, Sat 0])"
proof -
  let ?E = "recording_engine (\<lambda>cs. 10) id"
  let ?A = "call_with [LUserdata (Some 1) 0]"
  let ?B = "call_with [LUserdata (Some 1) 0, LTable None [LInteger 1], LInteger 2]"
  let ?C = "call_with [LUserdata (Some 1) 0, LInteger 1]"
  have a: "get_lgl ?A = Inr 0" and b: "get_lgl ?B = Inr 0" and c: "get_lgl ?C = Inr 0"
    by (simp_all add: lua_defs)
  have a': "lua_gettop ?A \<noteq> 2" and b': "lua_gettop ?B \<noteq> 2"
    and c': "lua_type ?C 2 \<noteq> LUA_TTABLE" and c'': "lua_gettop ?C = 2"
    by (simp_all add: lua_defs)
  show ?thesis
    using a b c a' b' c' c''
      query_arity_and_type_errors [OF a disjI1 [OF a'], of ?E "[Init 0, Sat 0]"]
      query_arity_and_type_errors [OF b disjI1 [OF b'], of ?E "[Init 0, Sat 0]"]
      query_arity_and_type_errors [OF c disjI2 [OF c'], of ?E "[Init 0, Sat 0]"]
    by simp
qed

text \<open>
  C8. On a session on which no solve has completed (created by \<open>new\<close>, then only
  clause submissions and queries), a query with a table of non-zero integers
  raises no error: it returns the table of the results of \<^verbatim>\<open>lglderef\<close>, whatever the
  engine answers there. The module keeps no record of a solve and checks none.
\<close>

theorem query_before_solve:
  assumes fresh: "unsolved eng L self w"
      and nz: "0 \<notin> set cs"
  shows "\<exists>lgl. get_lgl (L\<lparr>stack := [self, LTable mt (map LInteger cs)]\<rparr>) = Inr lgl \<and>
           Solver_query eng (L\<lparr>stack := [self, LTable mt (map LInteger cs)]\<rparr>) w =
             (Inr [LTable None (map LInteger (fst (deref_each eng lgl (map to_int cs) w)))],
              snd (deref_each eng lgl (map to_int cs) w))"
proof -
  from unsolved_userdata [OF fresh] obtain lgl where s: "self = LUserdata (Some (upvalue1 L)) lgl" ..
  let ?L = "L\<lparr>stack := [self, LTable mt (map LInteger cs)]\<rparr>"
  have g: "get_lgl ?L = Inr lgl" unfolding s by (rule get_lgl_userdata)
  have st: "stack ?L = [self, LTable mt (map LInteger cs)]" by simp
  from g query_nonzero_integers [OF g st nz, of eng w] show ?thesis by blast
qed

theorem query_before_solve_witness:
  "unsolved (recording_engine (\<lambda>cs. 10) id) (call_with []) (LUserdata (Some 1) 0)
     [Init 0, Add 0 1, Add 0 (- 2), Add 0 0] \<and>
   (0::int) \<notin> set [1, 2] \<and>
   Solver_query (recording_engine (\<lambda>cs. 10) id)
       (call_with [LUserdata (Some 1) 0, LTable None [LInteger 1, LInteger 2]])
       [Init 0, Add 0 1, Add 0 (- 2), Add 0 0]
     = (Inr [LTable None [LInteger 0, LInteger 0]],
        [Init 0, Add 0 1, Add 0 (- 2), Add 0 0, Deref 0 1, Deref 0 2])"
proof -
  let ?E = "recording_engine (\<lambda>cs. 10) id"
  let ?s = "LUserdata (Some 1) 0"
  have n: "Solver_new ?E ((call_with [])\<lparr>stack := []\<rparr>) [] = (Inr [?s], [Init 0])"
    by (simp add: Solver_new_def recording_engine_def call_with_def)
  have u1: "unsolved ?E (call_with []) ?s [Init 0]" by (rule unsolved.created [OF n])
  let ?args = "[LTable None [LInteger 1, LInteger (- 2), LInteger 0]]"
  let ?L = "(call_with [])\<lparr>stack := ?s # ?args\<rparr>"
  have g: "get_lgl ?L = Inr 0" by (simp add: lua_defs)
  have st: "stack ?L = ?s # ?args" by simp
  have a: "Solver_addDIMACSSeqence ?E ?L [Init 0] = (Inr [], [Init 0, Add 0 1, Add 0 (- 2), Add 0 0])"
    using add_integer_valued [OF g st, of ?E "[Init 0]"]
    by (simp add: recording_engine_def literal_stream_def to_int_def)
  have u2: "unsolved ?E (call_with []) ?s [Init 0, Add 0 1, Add 0 (- 2), Add 0 0]"
    by (rule unsolved.submitted [OF u1 a])
  have n0: "(0::int) \<notin> set [1, 2]" by simp
  have e: "(call_with [])\<lparr>stack := [?s, LTable None (map LInteger [1, 2])]\<rparr>
           = call_with [?s, LTable None [LInteger 1, LInteger 2]]"
    by (simp add: call_with_def)
  from query_before_solve [OF u2 n0, of None]
  show ?thesis using u2 n0 unfolding e
    by (auto simp: recording_engine_def lua_defs to_int_def)
qed

text \<open>
  C9 says that a query fails on every entry that is not an integer, a string for
  example. It does not hold: \<^verbatim>\<open>lua_tointeger\<close> converts a string that is a numeral, so
  \<open>query({"5"})\<close> dereferences the literal 5 and returns.
\<close>

theorem query_accepts_numeral_string_counterexample:
  "tointeger (call_with []) (LString ''5'') = 5 \<and>
   Solver_query (recording_engine (\<lambda>cs. 10) id)
       (call_with [LUserdata (Some 1) 0, LTable None [LString ''5'']]) [Init 0, Sat 0]
     = (Inr [LTable None [LInteger 5]], [Init 0, Sat 0, Deref 0 5])"
proof -
  let ?L = "call_with [LUserdata (Some 1) 0, LTable None [LString ''5'']]"
  have g: "get_lgl ?L = Inr 0" by (simp add: lua_defs)
  have s: "stack ?L = [LUserdata (Some 1) 0, LTable None [LString ''5'']]"
    by (simp add: call_with_def)
  have c: "tointeger ?L (LString ''5'') = 5" "tointeger (call_with []) (LString ''5'') = 5"
    by (simp_all add: tointeger_def tointegerx_def call_with_def decimal_def unsigned_def)
  show ?thesis
    using Solver_query_table [OF g s, of "recording_engine (\<lambda>cs. 10) id" "[Init 0, Sat 0]"] c
    by (simp add: recording_engine_def to_int_def)
qed

text \<open>
  C9, amended. On a valid session, when an entry of the table of a query does not
  convert to an integer (\<^verbatim>\<open>lua_tointeger\<close> finds no integer in it: \<^verbatim>\<open>nil\<close>, a boolean, a
  table, a string that is no numeral, a float with a fraction), it reads as 0 and
  the query fails with the message of a zero literal, "Array may contain only
  non-zero integers"; a query has no message of its own for such an entry. When
  every entry converts to a non-zero integer in the range of a C \<^verbatim>\<open>int\<close> (an integer,
  a numeral string, a float with an integral value), the query returns and each
  entry is dereferenced as the integer it converts to.
\<close>

theorem query_entries_by_conversion:
  assumes self: "get_lgl L = Inr lgl"
      and args: "stack L = [self, LTable mt vs]"
  shows "(v \<in> set vs \<and> tointegerx L v = None \<longrightarrow>
            tointeger L v = 0 \<and>
            fst (Solver_query eng L w) = Inl ''Array may contain only non-zero integers'') \<and>
         (list_all (\<lambda>v. tointeger L v \<noteq> 0 \<and> int_range (tointeger L v)) vs \<longrightarrow>
            Solver_query eng L w =
              (Inr [LTable None
                 (map LInteger (fst (deref_each eng lgl (map (tointeger L) vs) w)))],
               snd (deref_each eng lgl (map (tointeger L) vs) w)))"
proof (intro conjI impI)
  assume a: "v \<in> set vs \<and> tointegerx L v = None"
  then show z: "tointeger L v = 0" by (simp add: tointeger_def)
  with a have "\<not> list_all (\<lambda>v. tointeger L v \<noteq> 0) vs"
    unfolding list_all_iff by blast
  from query_values_zero [OF this, of eng lgl "[]" w]
  show "fst (Solver_query eng L w) = Inl ''Array may contain only non-zero integers''"
    using Solver_query_table [OF self args, of eng w] by simp
next
  assume a: "list_all (\<lambda>v. tointeger L v \<noteq> 0 \<and> int_range (tointeger L v)) vs"
  then have nz: "list_all (\<lambda>v. tointeger L v \<noteq> 0) vs"
    unfolding list_all_iff by blast
  from a have "list_all int_range (map (tointeger L) vs)"
    unfolding list_all_iff by simp
  then have "map to_int (map (tointeger L) vs) = map (tointeger L) vs"
    by (rule map_to_int_in_range)
  then have m: "map (\<lambda>v. to_int (tointeger L v)) vs = map (tointeger L) vs"
    by (simp add: comp_def)
  show "Solver_query eng L w =
          (Inr [LTable None (map LInteger (fst (deref_each eng lgl (map (tointeger L) vs) w)))],
           snd (deref_each eng lgl (map (tointeger L) vs) w))"
    using Solver_query_table [OF self args, of eng w]
      query_values_nonzero [OF nz, of eng lgl "[]" w] m
    by simp
qed

theorem query_entries_by_conversion_witness:
  "get_lgl (call_with [LUserdata (Some 1) 0, LTable None [LInteger 1, LString ''x'']]) = Inr 0 \<and>
   LString ''x'' \<in> set [LInteger 1, LString ''x''] \<and>
   tointegerx (call_with [LUserdata (Some 1) 0, LTable None [LInteger 1, LString ''x'']])
     (LString ''x'') = None \<and>
   fst (Solver_query (recording_engine (\<lambda>cs. 10) id)
       (call_with [LUserdata (Some 1) 0, LTable None [LInteger 1, LString ''x'']]) [Init 0, Sat 0])
     = Inl ''Array may contain only non-zero integers'' \<and>
   get_lgl (call_with [LUserdata (Some 1) 0, LTable None [LString ''-5'', LFloat (Flt 1 1)]])
     = Inr 0 \<and>
   list_all (\<lambda>v. tointeger (call_with []) v \<noteq> 0 \<and> int_range (tointeger (call_with []) v))
     [LString ''-5'', LFloat (Flt 1 1)] \<and>
   Solver_query (recording_engine (\<lambda>cs. 10) id)
       (call_with [LUserdata (Some 1) 0, LTable None [LString ''-5'', LFloat (Flt 1 1)]])
       [Init 0, Sat 0]
     = (Inr [LTable None [LInteger (- 5), LInteger 2]], [Init 0, Sat 0, Deref 0 (- 5), Deref 0 2])"
proof -
  let ?L = "call_with [LUserdata (Some 1) 0, LTable None [LInteger 1, LString ''x'']]"
  let ?M = "call_with [LUserdata (Some 1) 0, LTable None [LString ''-5'', LFloat (Flt 1 1)]]"
  have g: "get_lgl ?L = Inr 0" and h: "get_lgl ?M = Inr 0" by (simp_all add: lua_defs)
  have s: "stack ?L = [LUserdata (Some 1) 0, LTable None [LInteger 1, LString ''x'']]"
    and t: "stack ?M = [LUserdata (Some 1) 0, LTable None [LString ''-5'', LFloat (Flt 1 1)]]"
    by (simp_all add: call_with_def)
  have e: "LString ''x'' \<in> set [LInteger 1, LString ''x'']" by simp
  have b: "tointegerx ?L (LString ''x'') = None"
    by (simp add: tointegerx_def call_with_def decimal_def unsigned_def)
  have c: "tointeger ?M (LString ''-5'') = - 5" "tointeger ?M (LFloat (Flt 1 1)) = 2"
    "tointeger (call_with []) (LString ''-5'') = - 5"
    "tointeger (call_with []) (LFloat (Flt 1 1)) = 2"
    by (simp_all add: tointeger_def tointegerx_def call_with_def decimal_def unsigned_def)
  have r: "int_range (- 5)" "int_range 2" by (simp_all add: int_range_def)
  show ?thesis
    using g h e b c r
      query_entries_by_conversion [OF g s, of "LString ''x''" "recording_engine (\<lambda>cs. 10) id"
        "[Init 0, Sat 0]"]
      query_entries_by_conversion [OF h t, of "LString ''x''" "recording_engine (\<lambda>cs. 10) id"
        "[Init 0, Sat 0]"]
    by (simp add: recording_engine_def)
qed

section \<open>Disposal\<close>

text \<open>
  C6 says that the second of two disposal steps does not release the engine handle
  again. It does not hold: \<^verbatim>\<open>Solver_gc\<close> keeps no record of a release, and run twice
  on the same userdata (the class has \<^verbatim>\<open>__index\<close> set to itself, so \<^verbatim>\<open>__gc\<close> can be
  called from Lua before the collector calls it) it calls \<^verbatim>\<open>lglrelease\<close> twice on the
  same handle.
\<close>

theorem second_disposal_releases_again_counterexample:
  "Solver_gc (recording_engine (\<lambda>cs. 10) id) (call_with [LUserdata (Some 1) 0])
     (snd (Solver_gc (recording_engine (\<lambda>cs. 10) id) (call_with [LUserdata (Some 1) 0]) [Init 0]))
   = (Inr [], [Init 0, Release 0, Release 0])"
  by (simp add: Solver_gc_def recording_engine_def lua_defs)

text \<open>
  C6, amended. Every disposal step on a session's userdata calls \<^verbatim>\<open>lglrelease\<close>
  once on the session's handle, whatever happened before: a session disposed of
  once is released once, and a second disposal step releases the handle again.
\<close>

theorem disposal_releases_each_time:
  assumes "lua_touserdata L 1 = Some lgl"
  shows "Solver_gc eng L w = (Inr [], lglrelease eng lgl w) \<and>
         Solver_gc eng L (snd (Solver_gc eng L w)) =
           (Inr [], lglrelease eng lgl (lglrelease eng lgl w))"
  using assms by (simp add: Solver_gc_def)

theorem disposal_releases_each_time_witness:
  "lua_touserdata (call_with [LUserdata (Some 1) 0]) 1 = Some 0 \<and>
   Solver_gc (recording_engine (\<lambda>cs. 10) id) (call_with [LUserdata (Some 1) 0])
       [Init 0, Add 0 1, Add 0 0, Sat 0]
     = (Inr [], [Init 0, Add 0 1, Add 0 0, Sat 0, Release 0])"
proof -
  have t: "lua_touserdata (call_with [LUserdata (Some 1) 0]) 1 = Some 0" by (simp add: lua_defs)
  show ?thesis
    using t disposal_releases_each_time [OF t, of "recording_engine (\<lambda>cs. 10) id"
        "[Init 0, Add 0 1, Add 0 0, Sat 0]"]
    by (simp add: recording_engine_def)
qed

end
